theory Spec2Isabelle
  imports Complex_Main
begin

section \<open>Conventions of the embedding\<close>

text \<open>
  The service computes with Python integers and with IEEE double precision numbers
  (Python \<^verbatim>\<open>float\<close>, numpy \<^verbatim>\<open>float64\<close>).  Integers are modelled by \<^typ>\<open>int\<close>, floating
  point numbers by \<^typ>\<open>real\<close>: every arithmetic operation is the exact one, so the rounding
  error of the hardware is outside the model.  An exception is a value of type \<open>py_error\<close>,
  and a function that may raise returns a sum with the exception on the left.
\<close>

datatype py_error =
    PatientNotFoundError string
  | InsufficientDataError string "(string \<times> int) list"
  | IndexError
  | KeyError
  | TypeError
  | ZeroDivisionError
  | AttributeError

subsection \<open>Numbers\<close>

text \<open>Python's \<^verbatim>\<open>round(x)\<close>: to the nearest integer, a tie to the even neighbour.\<close>

definition py_round :: "real \<Rightarrow> int" where
  "py_round x =
     (let f = \<lfloor>x\<rfloor>; d = x - of_int f
      in if d < 1 / 2 then f else if 1 / 2 < d then f + 1 else if even f then f else f + 1)"

text \<open>\<^verbatim>\<open>round(x, 1)\<close>: one decimal place, a tie to the even last digit.\<close>

definition round1 :: "real \<Rightarrow> real" where
  "round1 x = of_int (py_round (x * 10)) / 10"

text \<open>\<^verbatim>\<open>round(x, 3)\<close>\<close>

definition round3 :: "real \<Rightarrow> real" where
  "round3 x = of_int (py_round (x * 1000)) / 1000"

text \<open>\<^verbatim>\<open>int(x)\<close> of a float truncates towards zero.\<close>

definition py_int :: "real \<Rightarrow> int" where
  "py_int x = (if 0 \<le> x then \<lfloor>x\<rfloor> else \<lceil>x\<rceil>)"

text \<open>The mean of a list, \<^verbatim>\<open>sum(xs) / len(xs)\<close> and \<^verbatim>\<open>np.mean\<close>, where the list is not empty.\<close>

definition np_mean :: "real list \<Rightarrow> real" where
  "np_mean xs = sum_list xs / real (length xs)"

text \<open>\<^verbatim>\<open>np.std\<close>: the population standard deviation.\<close>

definition np_std :: "real list \<Rightarrow> real" where
  "np_std xs = sqrt (np_mean (map (\<lambda>v. (v - np_mean xs)\<^sup>2) xs))"

subsection \<open>Strings\<close>

definition digit_char :: "nat \<Rightarrow> char" where
  "digit_char d = ''0123456789'' ! d"

fun show_nat :: "nat \<Rightarrow> string" where
  "show_nat n = (if n < 10 then [digit_char n] else show_nat (n div 10) @ [digit_char (n mod 10)])"

declare show_nat.simps [simp del]

text \<open>\<^verbatim>\<open>str(i)\<close> and \<^verbatim>\<open>f"{i}"\<close> for an integer.\<close>

definition show_int :: "int \<Rightarrow> string" where
  "show_int i = (if i < 0 then CHR ''-'' # show_nat (nat (- i)) else show_nat (nat i))"

text \<open>
  \<^verbatim>\<open>f"{x:.0f}"\<close> and \<^verbatim>\<open>f"{x:.1f}"\<close>: the number rounded as by \<^verbatim>\<open>round\<close>, a negative
  number keeping its sign when it rounds to zero.
\<close>

definition fmt_0f :: "real \<Rightarrow> string" where
  "fmt_0f x = (if x < 0 then CHR ''-'' # show_nat (nat (- py_round x)) else show_nat (nat (py_round x)))"

definition fmt_1f :: "real \<Rightarrow> string" where
  "fmt_1f x =
     (let t = nat \<bar>py_round (x * 10)\<bar>;
          s = show_nat (t div 10) @ ''.'' @ [digit_char (t mod 10)]
      in if x < 0 then CHR ''-'' # s else s)"

text \<open>\<^verbatim>\<open>needle in haystack\<close> for strings: the needle occurs as a contiguous part.\<close>

fun is_prefix :: "string \<Rightarrow> string \<Rightarrow> bool" where
  "is_prefix [] ys = True"
| "is_prefix (x # xs) [] = False"
| "is_prefix (x # xs) (y # ys) = (x = y \<and> is_prefix xs ys)"

fun str_contains :: "string \<Rightarrow> string \<Rightarrow> bool" where
  "str_contains needle [] = (needle = [])"
| "str_contains needle (c # cs) = (is_prefix needle (c # cs) \<or> str_contains needle cs)"

text \<open>\<^verbatim>\<open>str.lower\<close>, on the ASCII letters.\<close>

definition lower_char :: "char \<Rightarrow> char" where
  "lower_char c =
     (let k = (of_char c :: nat) in if 65 \<le> k \<and> k \<le> 90 then char_of (k + 32) else c)"

definition lower :: "string \<Rightarrow> string" where
  "lower s = map lower_char s"

section \<open>Data model (models/requests.py, config.py, utils/database.py)\<close>

text \<open>
  An instant (\<^verbatim>\<open>datetime\<close>) is the number of microseconds since a fixed origin, and a
  calendar date is the number of its day.  The readings' \<^verbatim>\<open>measurement_date\<close> strings all
  have the same ISO format, so their order as strings is the order of the instants.
\<close>

type_synonym datetime = int

definition day_us :: int where
  "day_us = 86400000000"

text \<open>\<^verbatim>\<open>(b - a).days\<close>\<close>

definition timedelta_days :: "datetime \<Rightarrow> datetime \<Rightarrow> int" where
  "timedelta_days b a = (b - a) div day_us"

text \<open>\<^verbatim>\<open>d.date()\<close>\<close>

definition date_of :: "datetime \<Rightarrow> int" where
  "date_of d = d div day_us"

record BloodPressureReading =
  systolic :: int
  diastolic :: int
  pulse :: "int option"
  measurement_date :: datetime
  time_of_day :: "string option"
  position :: "string option"

record Medication =
  name :: string
  active :: "bool option"
  adherence_rate :: "real option"

record LifestyleEntry =
  entry_date :: "int option"
  physical_activity :: "int option"
  diet_quality :: "string option"
  salt_intake :: "string option"
  sleep_duration :: "real option"
  sleep_quality :: "string option"
  stress_level :: "string option"
  water_intake :: "int option"
  weight :: "real option"
  alcohol_consumption :: "int option"
  smoking_status :: "string option"
  sodium_mg :: "int option"
  caffeine_intake :: "int option"

text \<open>
  The patient row with its joined user record: \<open>users\<close> is \<open>None\<close> when the key is missing,
  \<open>Some None\<close> when the join is null.
\<close>

record UserRecord =
  age :: "int option"

record PatientProfile =
  users :: "UserRecord option option"
  medical_history :: "string option"

record Settings =
  cache_ttl :: int
  cache_max_size :: int
  min_readings_for_analysis :: int
  default_analysis_days :: int


text \<open>The read queries of the data store, for one state of the store.\<close>

record Database =
  fetch_patient :: "string \<Rightarrow> PatientProfile option"
  fetch_blood_pressure_readings :: "string \<Rightarrow> int \<Rightarrow> BloodPressureReading list"
  fetch_medications :: "string \<Rightarrow> Medication list"
  fetch_lifestyle_entries :: "string \<Rightarrow> int \<Rightarrow> LifestyleEntry list"

text \<open>\<^verbatim>\<open>r[key]\<close> and \<^verbatim>\<open>r.get(key)\<close> for the three numeric metrics of a reading.\<close>

definition metric_of :: "string \<Rightarrow> BloodPressureReading \<Rightarrow> int option" where
  "metric_of key r =
     (if key = ''systolic'' then Some (systolic r)
      else if key = ''diastolic'' then Some (diastolic r)
      else if key = ''pulse'' then pulse r
      else None)"

text \<open>The exception of the minimum-readings check, as the four routines that have it build it.\<close>

definition insufficient_readings :: "string \<Rightarrow> int \<Rightarrow> int \<Rightarrow> py_error" where
  "insufficient_readings msg have need =
     InsufficientDataError msg [(''readings_count'', have), (''minimum_required'', need)]"

section \<open>Linear regression over the index (predictions.py, forecast.py)\<close>

text \<open>\<^verbatim>\<open>np.array(range(n))\<close>\<close>

definition x_range :: "nat \<Rightarrow> real list" where
  "x_range n = map real [0..<n]"

text \<open>\<^verbatim>\<open>np.sum((x - x_mean) * (y - y_mean))\<close> and \<^verbatim>\<open>np.sum((x - x_mean) ** 2)\<close>\<close>

definition numerator :: "real list \<Rightarrow> real" where
  "numerator y =
     (let x = x_range (length y); x_mean = np_mean x; y_mean = np_mean y
      in sum_list (map2 (\<lambda>xi yi. (xi - x_mean) * (yi - y_mean)) x y))"

definition denominator :: "real list \<Rightarrow> real" where
  "denominator y =
     (let x = x_range (length y); x_mean = np_mean x
      in sum_list (map (\<lambda>xi. (xi - x_mean)\<^sup>2) x))"

definition slope :: "real list \<Rightarrow> real" where
  "slope y = (if denominator y = 0 then 0 else numerator y / denominator y)"

section \<open>Time series forecast (services/forecast.py)\<close>

record HistoricalDataPoint =
  date :: int
  "value" :: real

record ForecastDataPoint =
  fdate :: int
  predicted :: real
  upperBound :: real
  lowerBound :: real

record TimeSeriesForecast =
  ts_metric :: string
  ts_historical :: "HistoricalDataPoint list"
  ts_forecast :: "ForecastDataPoint list"

text \<open>\<^verbatim>\<open>_build_historical_data\<close>: one point per day with a value, in the order of the days.\<close>

definition build_historical_data ::
  "BloodPressureReading list \<Rightarrow> string \<Rightarrow> HistoricalDataPoint list" where
  "build_historical_data readings metric =
     (let daily_values =
            concat (map (\<lambda>r. case metric_of metric r of
                                None \<Rightarrow> []
                              | Some v \<Rightarrow> [(date_of (measurement_date r), real_of_int v)]) readings)
      in map (\<lambda>d. let values = map snd (filter (\<lambda>p. fst p = d) daily_values)
                   in \<lparr> date = d, value = round1 (sum_list values / real (length values)) \<rparr>)
             (sort (remdups (map fst daily_values))))"

text \<open>The regression parameters of \<^verbatim>\<open>_generate_forecast_points\<close>.\<close>

definition forecast_intercept :: "real list \<Rightarrow> real" where
  "forecast_intercept y =
     (if denominator y = 0 then np_mean y
      else np_mean y - slope y * np_mean (x_range (length y)))"

definition residuals :: "real list \<Rightarrow> real list" where
  "residuals y =
     map2 (\<lambda>xi yi. yi - (forecast_intercept y + slope y * xi)) (x_range (length y)) y"

definition std_error :: "real list \<Rightarrow> real" where
  "std_error y = (if 2 < length (residuals y) then np_std (residuals y) else 10)"

definition margin :: "real \<Rightarrow> int \<Rightarrow> int \<Rightarrow> real" where
  "margin se forecast_days i = 1.96 * se * (1 + (of_int i / of_int forecast_days) * 0.5)"

text \<open>The body of the loop of \<^verbatim>\<open>_generate_forecast_points\<close>, for day \<open>i\<close>.\<close>

definition forecast_point ::
  "real list \<Rightarrow> int \<Rightarrow> int \<Rightarrow> string \<Rightarrow> int \<Rightarrow> ForecastDataPoint" where
  "forecast_point y last_date forecast_days metric i =
     (let n = int (length y);
          x_future = n + i - 1;
          predicted0 = forecast_intercept y + slope y * of_int x_future;
          m = margin (std_error y) forecast_days i;
          (p, upper, lower) =
            (if metric = ''systolic'' then
               (let p = max 80 (min 200 predicted0) in (p, min 220 (p + m), max 70 (p - m)))
             else if metric = ''diastolic'' then
               (let p = max 50 (min 130 predicted0) in (p, min 150 (p + m), max 40 (p - m)))
             else
               (let p = max 40 (min 150 predicted0) in (p, min 180 (p + m), max 30 (p - m))))
      in \<lparr> fdate = last_date + i, predicted = round1 p,
           upperBound = round1 upper, lowerBound = round1 lower \<rparr>)"

text \<open>
  \<^verbatim>\<open>_generate_forecast_points\<close>; \<^verbatim>\<open>historical[-1]\<close> raises on an empty history.
\<close>

definition generate_forecast_points ::
  "HistoricalDataPoint list \<Rightarrow> int \<Rightarrow> string \<Rightarrow> py_error + ForecastDataPoint list" where
  "generate_forecast_points historical forecast_days metric =
     (let values = map value historical
      in if historical = [] then Inl IndexError
         else Inr (map (forecast_point values (date (last historical)) forecast_days metric)
                       [1..forecast_days]))"

definition generate_forecast ::
  "Database \<Rightarrow> Settings \<Rightarrow> string \<Rightarrow> string \<Rightarrow> int \<Rightarrow> int \<Rightarrow> py_error + TimeSeriesForecast" where
  "generate_forecast db settings patient_id metric0 forecast_days history_days =
     (let metric = (if metric0 \<in> set [''systolic'', ''diastolic'', ''pulse''] then metric0
                    else ''systolic'');
          metric_name = (if metric = ''systolic'' then ''Systolic BP''
                         else if metric = ''diastolic'' then ''Diastolic BP''
                         else ''Heart Rate'')
      in case fetch_patient db patient_id of
           None \<Rightarrow> Inl (PatientNotFoundError patient_id)
         | Some patient \<Rightarrow>
            (let readings = fetch_blood_pressure_readings db patient_id history_days
             in if int (length readings) < min_readings_for_analysis settings then
                  Inl (insufficient_readings
                        (''Not enough readings for forecast (have '' @ show_int (int (length readings))
                           @ '', need '' @ show_int (min_readings_for_analysis settings) @ '')'')
                        (int (length readings)) (min_readings_for_analysis settings))
                else
                  (let hist = build_historical_data readings metric
                   in if length hist < 7 then
                        Inl (InsufficientDataError ''Not enough daily data points for forecast''
                               [(''days_with_data'', int (length hist)), (''minimum_required'', 7)])
                      else
                        (case generate_forecast_points hist forecast_days metric of
                           Inl e \<Rightarrow> Inl e
                         | Inr fc \<Rightarrow>
                             Inr \<lparr> ts_metric = metric_name, ts_historical = hist, ts_forecast = fc \<rparr>))))"


text \<open>Eight days around 150 with a noise of two units.\<close>

definition noisy_history :: "HistoricalDataPoint list" where
  "noisy_history =
     [\<lparr> date = 0, value = 152 \<rparr>, \<lparr> date = 1, value = 148 \<rparr>, \<lparr> date = 2, value = 148 \<rparr>,
      \<lparr> date = 3, value = 152 \<rparr>, \<lparr> date = 4, value = 152 \<rparr>, \<lparr> date = 5, value = 148 \<rparr>,
      \<lparr> date = 6, value = 148 \<rparr>, \<lparr> date = 7, value = 152 \<rparr>]"

subsection \<open>Vocabulary for the forecast properties\<close>

text \<open>An arithmetic progression \<open>a, a + b, a + 2b, \<dots>\<close> of \<open>n\<close> values.\<close>

definition lin :: "real \<Rightarrow> real \<Rightarrow> nat \<Rightarrow> real list" where
  "lin a b n = map (\<lambda>i. a + b * real i) [0..<n]"

text \<open>
  The limits as the specification names them: the plausible range of a predicted value and
  the wider limits of its bounds, per metric.
\<close>

definition spec_plausible_range :: "string \<Rightarrow> real \<times> real" where
  "spec_plausible_range metric =
     (if metric = ''systolic'' then (80, 200)
      else if metric = ''diastolic'' then (50, 130) else (40, 150))"


definition clamp :: "real \<times> real \<Rightarrow> real \<Rightarrow> real" where
  "clamp lohi x = max (fst lohi) (min (snd lohi) x)"


section \<open>Trend predictions (services/predictions.py)\<close>

record TrendPrediction =
  tp_metric :: string
  currentValue :: real
  predictedValue :: real
  confidence :: int
  timeframe :: string
  trend :: string

text \<open>
  \<^verbatim>\<open>values = [r[metric_key] for r in sorted(readings, key=...)]\<close>: the readings oldest
  first (the sort is stable), and of each the metric.
\<close>

definition sorted_readings :: "BloodPressureReading list \<Rightarrow> BloodPressureReading list" where
  "sorted_readings readings = sort_key measurement_date readings"

definition metric_values :: "BloodPressureReading list \<Rightarrow> string \<Rightarrow> int option list" where
  "metric_values readings metric_key = map (metric_of metric_key) (sorted_readings readings)"

text \<open>\<^verbatim>\<open>values[-7:] if len(values) >= 7 else values\<close>\<close>

definition recent_values :: "real list \<Rightarrow> real list" where
  "recent_values values = (if 7 \<le> length values then drop (length values - 7) values else values)"

definition prediction_intercept :: "real list \<Rightarrow> real" where
  "prediction_intercept y = np_mean y - slope y * np_mean (x_range (length y))"

text \<open>The estimate of the number of readings per day, from the span of the dates.\<close>

definition readings_per_day :: "BloodPressureReading list \<Rightarrow> real" where
  "readings_per_day sorted_rs =
     (if 2 \<le> length sorted_rs then
        (let first_date = measurement_date (hd sorted_rs);
             last_date = measurement_date (last sorted_rs);
             d = timedelta_days last_date first_date;
             days_span = (if d = 0 then 1 else d)
         in real (length sorted_rs) / of_int days_span)
      else 1)"

definition trend_label :: "string \<Rightarrow> real \<Rightarrow> string" where
  "trend_label metric_key daily_change =
     (if metric_key \<in> set [''systolic'', ''diastolic''] then
        (if daily_change < - 0.3 then ''improving''
         else if daily_change > 0.3 then ''worsening''
         else ''stable'')
      else
        (if \<bar>daily_change\<bar> < 0.5 then ''stable''
         else if daily_change < 0 then ''improving''
         else ''worsening''))"

text \<open>\<^verbatim>\<open>r_squared = 1 - (ss_res / ss_tot) if ss_tot > 0 else 0\<close>\<close>

definition r_squared :: "real list \<Rightarrow> real" where
  "r_squared y =
     (let x = x_range (length y);
          y_pred = map (\<lambda>xi. prediction_intercept y + slope y * xi) x;
          ss_res = sum_list (map2 (\<lambda>yi pi. (yi - pi)\<^sup>2) y y_pred);
          ss_tot = sum_list (map (\<lambda>yi. (yi - np_mean y)\<^sup>2) y)
      in if ss_tot > 0 then 1 - ss_res / ss_tot else 0)"

definition prediction_confidence :: "real list \<Rightarrow> int" where
  "prediction_confidence y =
     (let n = length y
      in if 1 < n then
           (let data_factor = min 1 (real n / 30)
            in py_int (max 30 (min 95 (r_squared y * 100 * data_factor))))
         else 30)"

text \<open>The last step, \<^verbatim>\<open># Ensure predicted value is reasonable\<close>.\<close>

definition reasonable :: "string \<Rightarrow> real \<Rightarrow> real" where
  "reasonable metric_key predicted_value =
     (if metric_key = ''systolic'' then max 80 (min 200 predicted_value)
      else if metric_key = ''diastolic'' then max 50 (min 130 predicted_value)
      else if metric_key = ''pulse'' then max 40 (min 150 predicted_value)
      else predicted_value)"

text \<open>
  \<^verbatim>\<open>_calculate_metric_prediction\<close>.  The mean of no values divides by zero; a key that
  a reading does not have raises \<^verbatim>\<open>KeyError\<close>, and a pulse that is \<^verbatim>\<open>None\<close> cannot be summed.
\<close>

definition calculate_metric_prediction ::
  "BloodPressureReading list \<Rightarrow> string \<Rightarrow> string \<Rightarrow> int \<Rightarrow> py_error + TrendPrediction" where
  "calculate_metric_prediction readings metric_key metric_name timeframe_days =
     (if readings = [] then Inl ZeroDivisionError
      else if metric_key \<notin> set [''systolic'', ''diastolic'', ''pulse''] then Inl KeyError
      else if None \<in> set (metric_values readings metric_key) then Inl TypeError
      else
        (let y = map (\<lambda>v. real_of_int (the v)) (metric_values readings metric_key);
             n = length y;
             current_value = sum_list (recent_values y) / real (length (recent_values y));
             rpd = readings_per_day (sorted_readings readings);
             future_x = real n + of_int timeframe_days * rpd;
             predicted_value = prediction_intercept y + slope y * future_x;
             daily_change = slope y * rpd
         in Inr \<lparr> tp_metric = metric_name,
                  currentValue = round1 current_value,
                  predictedValue = round1 (reasonable metric_key predicted_value),
                  confidence = prediction_confidence y,
                  timeframe = show_int timeframe_days @ '' days'',
                  trend = trend_label metric_key daily_change \<rparr>))"


subsection \<open>Readings for the scenarios\<close>

text \<open>A reading of the given systolic value at the given instant, nothing else recorded.\<close>

definition bp_reading :: "int \<Rightarrow> int \<Rightarrow> datetime \<Rightarrow> BloodPressureReading" where
  "bp_reading s d t =
     \<lparr> systolic = s, diastolic = d, pulse = None, measurement_date = t,
       time_of_day = None, position = None \<rparr>"


text \<open>\<open>n\<close> readings a day apart with the same values.\<close>

definition constant_readings :: "nat \<Rightarrow> int \<Rightarrow> int \<Rightarrow> BloodPressureReading list" where
  "constant_readings n s d = rev (map (\<lambda>k. bp_reading s d (int k * day_us)) [0..<n])"



section \<open>Correlation analysis (services/correlations.py)\<close>

record Correlation =
  factor1 :: string
  factor2 :: string
  correlation :: real
  strength :: string
  direction :: string

text \<open>
  The daily data map: for each day, in the order in which the days were first met, a
  dictionary from field names to numbers or strings.
\<close>

datatype dvalue = Num real | Str string

type_synonym day_data = "string \<rightharpoonup> dvalue"

type_synonym daily_data = "(int \<times> day_data) list"

text \<open>\<^verbatim>\<open>daily_data[date][key] = v\<close> on a \<^verbatim>\<open>defaultdict(dict)\<close>\<close>

fun daily_set :: "int \<Rightarrow> string \<Rightarrow> dvalue \<Rightarrow> daily_data \<Rightarrow> daily_data" where
  "daily_set d k v [] = [(d, [k \<mapsto> v])]"
| "daily_set d k v ((d', m) # rest) =
     (if d = d' then (d', m(k \<mapsto> v)) # rest else (d', m) # daily_set d k v rest)"

definition truthy_pulse :: "BloodPressureReading \<Rightarrow> bool" where
  "truthy_pulse r = (pulse r \<noteq> None \<and> pulse r \<noteq> Some 0)"

text \<open>The fields of one day of readings, in the order in which the source sets them.\<close>

definition day_fields :: "BloodPressureReading list \<Rightarrow> (string \<times> dvalue) list" where
  "day_fields day_readings =
     (let pulse_readings = map (\<lambda>r. real_of_int (the (pulse r))) (filter truthy_pulse day_readings)
      in [(''systolic'', Num (sum_list (map (\<lambda>r. real_of_int (systolic r)) day_readings)
                                / real (length day_readings))),
          (''diastolic'', Num (sum_list (map (\<lambda>r. real_of_int (diastolic r)) day_readings)
                                / real (length day_readings)))]
         @ (if pulse_readings \<noteq> []
            then [(''pulse'', Num (sum_list pulse_readings / real (length pulse_readings)))]
            else []))"

text \<open>The fields of a lifestyle entry that are copied, those that are not \<^verbatim>\<open>None\<close>.\<close>

definition lifestyle_fields :: "LifestyleEntry \<Rightarrow> (string \<times> dvalue) list" where
  "lifestyle_fields entry =
     concat (map (\<lambda>(k, v). case v of None \<Rightarrow> [] | Some x \<Rightarrow> [(k, x)])
       [(''physical_activity'', map_option (\<lambda>x. Num (real_of_int x)) (physical_activity entry)),
        (''sleep_duration'', map_option Num (sleep_duration entry)),
        (''stress_level'', map_option Str (stress_level entry)),
        (''water_intake'', map_option (\<lambda>x. Num (real_of_int x)) (water_intake entry)),
        (''weight'', map_option Num (weight entry)),
        (''sodium_mg'', map_option (\<lambda>x. Num (real_of_int x)) (sodium_mg entry)),
        (''caffeine_intake'', map_option (\<lambda>x. Num (real_of_int x)) (caffeine_intake entry)),
        (''alcohol_consumption'', map_option (\<lambda>x. Num (real_of_int x)) (alcohol_consumption entry)),
        (''salt_intake'', map_option Str (salt_intake entry))])"

definition set_fields :: "int \<Rightarrow> (string \<times> dvalue) list \<Rightarrow> daily_data \<Rightarrow> daily_data" where
  "set_fields d kvs dd = foldl (\<lambda>acc (k, v). daily_set d k v acc) dd kvs"

text \<open>\<^verbatim>\<open>_build_daily_data\<close>\<close>

definition build_daily_data ::
  "BloodPressureReading list \<Rightarrow> LifestyleEntry list \<Rightarrow> daily_data" where
  "build_daily_data readings lifestyle =
     (let reading_dates = rev (remdups (rev (map (\<lambda>r. date_of (measurement_date r)) readings)));
          with_readings =
            foldl (\<lambda>acc d. set_fields d
                     (day_fields (filter (\<lambda>r. date_of (measurement_date r) = d) readings)) acc)
                  [] reading_dates
      in foldl (\<lambda>acc entry. case entry_date entry of
                                None \<Rightarrow> acc
                              | Some d \<Rightarrow> set_fields d (lifestyle_fields entry) acc)
               with_readings lifestyle)"

text \<open>
  The Pearson coefficient as \<^verbatim>\<open>_calculate_factor_correlation\<close> and
  \<^verbatim>\<open>_calculate_stress_correlation\<close> compute it from the pairs, in the same lines.
\<close>

definition pearson :: "(real \<times> real) list \<Rightarrow> real option" where
  "pearson pairs =
     (if length pairs < 5 then None
      else
        (let n = real (length pairs);
             sum_x = sum_list (map fst pairs);
             sum_y = sum_list (map snd pairs);
             sum_xy = sum_list (map (\<lambda>p. fst p * snd p) pairs);
             sum_x2 = sum_list (map (\<lambda>p. (fst p)\<^sup>2) pairs);
             sum_y2 = sum_list (map (\<lambda>p. (snd p)\<^sup>2) pairs);
             numer = n * sum_xy - sum_x * sum_y;
             denominator_sq = (n * sum_x2 - sum_x\<^sup>2) * (n * sum_y2 - sum_y\<^sup>2)
         in if denominator_sq \<le> 0 then None
            else
              (let denom = sqrt denominator_sq
               in if denom = 0 then None
                  else
                    (let corr = numer / denom
                     in if \<bar>corr\<bar> < 0.1 then None else Some corr))))"

text \<open>
  The pairs of the days that have both fields; \<^verbatim>\<open>daily_data[date]\<close> raises for a day that
  is not in the map.
\<close>

fun collect_pairs ::
  "daily_data \<Rightarrow> int list \<Rightarrow> string \<Rightarrow> string \<Rightarrow> py_error + (dvalue \<times> dvalue) list" where
  "collect_pairs dd [] outcome_key factor_key = Inr []"
| "collect_pairs dd (d # ds) outcome_key factor_key =
     (case map_of dd d of
        None \<Rightarrow> Inl KeyError
      | Some day \<Rightarrow>
         (case collect_pairs dd ds outcome_key factor_key of
            Inl e \<Rightarrow> Inl e
          | Inr pairs \<Rightarrow>
             (case (day outcome_key, day factor_key) of
                (Some outcome, Some factor) \<Rightarrow> Inr ((outcome, factor) # pairs)
              | _ \<Rightarrow> Inr pairs)))"

fun is_Num :: "dvalue \<Rightarrow> bool" where
  "is_Num (Num x) = True"
| "is_Num (Str s) = False"

fun num_of :: "dvalue \<Rightarrow> real" where
  "num_of (Num x) = x"
| "num_of (Str s) = 0"

text \<open>
  \<^verbatim>\<open>_calculate_factor_correlation\<close>; the sums raise \<^verbatim>\<open>TypeError\<close> on a string.
\<close>

definition calculate_factor_correlation ::
  "daily_data \<Rightarrow> int list \<Rightarrow> string \<Rightarrow> string \<Rightarrow> py_error + real option" where
  "calculate_factor_correlation dd dates outcome_key factor_key =
     (case collect_pairs dd dates outcome_key factor_key of
        Inl e \<Rightarrow> Inl e
      | Inr pairs \<Rightarrow>
          if length pairs < 5 then Inr None
          else if \<exists>p \<in> set pairs. \<not> is_Num (fst p) \<or> \<not> is_Num (snd p) then Inl TypeError
          else Inr (pearson (map (\<lambda>p. (num_of (fst p), num_of (snd p))) pairs)))"

definition stress_map :: "string \<rightharpoonup> real" where
  "stress_map = [''low'' \<mapsto> 1, ''moderate'' \<mapsto> 2, ''high'' \<mapsto> 3, ''severe'' \<mapsto> 4]"

fun collect_stress_pairs :: "daily_data \<Rightarrow> int list \<Rightarrow> py_error + (dvalue \<times> real) list" where
  "collect_stress_pairs dd [] = Inr []"
| "collect_stress_pairs dd (d # ds) =
     (case map_of dd d of
        None \<Rightarrow> Inl KeyError
      | Some day \<Rightarrow>
         (case collect_stress_pairs dd ds of
            Inl e \<Rightarrow> Inl e
          | Inr pairs \<Rightarrow>
             (case (day ''systolic'', day ''stress_level'') of
                (Some sys, Some (Str s)) \<Rightarrow>
                   (case stress_map s of Some v \<Rightarrow> Inr ((sys, v) # pairs) | None \<Rightarrow> Inr pairs)
              | _ \<Rightarrow> Inr pairs)))"

definition calculate_stress_correlation :: "daily_data \<Rightarrow> int list \<Rightarrow> py_error + real option" where
  "calculate_stress_correlation dd dates =
     (case collect_stress_pairs dd dates of
        Inl e \<Rightarrow> Inl e
      | Inr pairs \<Rightarrow>
          if length pairs < 5 then Inr None
          else if \<exists>p \<in> set pairs. \<not> is_Num (fst p) then Inl TypeError
          else Inr (pearson (map (\<lambda>p. (num_of (fst p), snd p)) pairs)))"

definition correlation_strength :: "real \<Rightarrow> string" where
  "correlation_strength c =
     (if 0.7 \<le> \<bar>c\<bar> then ''strong'' else if 0.4 \<le> \<bar>c\<bar> then ''moderate'' else ''weak'')"

text \<open>
  The ten correlations in the order of the source, the first exception ending the routine;
  a result is kept when it is neither \<^verbatim>\<open>None\<close> nor zero.
\<close>

fun kept_correlations ::
  "(string \<times> (py_error + real option)) list \<Rightarrow> py_error + (string \<times> string \<times> real) list" where
  "kept_correlations [] = Inr []"
| "kept_correlations ((label, res) # rest) =
     (case res of
        Inl e \<Rightarrow> Inl e
      | Inr c \<Rightarrow>
         (case kept_correlations rest of
            Inl e \<Rightarrow> Inl e
          | Inr kept \<Rightarrow>
             (case c of
                None \<Rightarrow> Inr kept
              | Some v \<Rightarrow> if v \<noteq> 0 then Inr ((label, ''Systolic BP'', v) # kept) else Inr kept)))"

definition to_correlation :: "string \<times> string \<times> real \<Rightarrow> Correlation" where
  "to_correlation t =
     (case t of (f1, f2, corr_value) \<Rightarrow>
        \<lparr> factor1 = f1, factor2 = f2, correlation = round3 corr_value,
          strength = correlation_strength corr_value,
          direction = (if 0 < corr_value then ''positive'' else ''negative'') \<rparr>)"

definition analyze_correlations ::
  "Database \<Rightarrow> Settings \<Rightarrow> string \<Rightarrow> int \<Rightarrow> py_error + Correlation list" where
  "analyze_correlations db settings patient_id days =
     (case fetch_patient db patient_id of
        None \<Rightarrow> Inl (PatientNotFoundError patient_id)
      | Some patient \<Rightarrow>
         (let readings = fetch_blood_pressure_readings db patient_id days;
              lifestyle = fetch_lifestyle_entries db patient_id days
          in if int (length readings) < min_readings_for_analysis settings then
               Inl (insufficient_readings ''Not enough data for correlation analysis''
                     (int (length readings)) (min_readings_for_analysis settings))
             else
               (let dd = build_daily_data readings lifestyle
                in if length dd < 5 then
                     Inl (InsufficientDataError
                            ''Not enough daily data points for correlation analysis''
                            [(''days_with_data'', int (length dd)), (''minimum_required'', 5)])
                   else
                     (let dates = sort (map fst dd)
                      in case kept_correlations
                           [(''Sodium Intake'', calculate_factor_correlation dd dates ''systolic'' ''sodium_mg''),
                            (''Physical Activity'', calculate_factor_correlation dd dates ''systolic'' ''physical_activity''),
                            (''Sleep Duration'', calculate_factor_correlation dd dates ''systolic'' ''sleep_duration''),
                            (''Stress Level'', calculate_stress_correlation dd dates),
                            (''Body Weight'', calculate_factor_correlation dd dates ''systolic'' ''weight''),
                            (''Water Intake'', calculate_factor_correlation dd dates ''systolic'' ''water_intake''),
                            (''Caffeine Intake'', calculate_factor_correlation dd dates ''systolic'' ''caffeine_intake''),
                            (''Alcohol Consumption'', calculate_factor_correlation dd dates ''systolic'' ''alcohol_consumption''),
                            (''Diastolic BP'', calculate_factor_correlation dd dates ''systolic'' ''diastolic''),
                            (''Heart Rate'', calculate_factor_correlation dd dates ''systolic'' ''pulse'')] of
                           Inl e \<Rightarrow> Inl e
                         | Inr factor_correlations \<Rightarrow>
                             Inr (rev (sort_key (\<lambda>c. \<bar>correlation c\<bar>)
                                    (rev (map to_correlation factor_correlations))))))))"

subsection \<open>The Pearson coefficient as the specification defines it\<close>





section \<open>Rounding and linear regression: basic facts\<close>

lemma py_round_mono: "x \<le> y \<Longrightarrow> py_round x \<le> py_round y"
proof -
  assume xy: "x \<le> y"
  have fl: "\<lfloor>x\<rfloor> \<le> \<lfloor>y\<rfloor>" using xy by (rule floor_mono)
  show ?thesis
  proof (cases "\<lfloor>x\<rfloor> = \<lfloor>y\<rfloor>")
    case True
    then show ?thesis using xy unfolding py_round_def Let_def by auto
  next
    case False
    then have "\<lfloor>x\<rfloor> + 1 \<le> \<lfloor>y\<rfloor>" using fl by linarith
    moreover have "py_round x \<le> \<lfloor>x\<rfloor> + 1" unfolding py_round_def Let_def by auto
    moreover have "\<lfloor>y\<rfloor> \<le> py_round y" unfolding py_round_def Let_def by auto
    ultimately show ?thesis by linarith
  qed
qed

lemma py_round_of_int [simp]: "py_round (of_int k) = k"
  unfolding py_round_def Let_def by simp

lemma round1_mono: "x \<le> y \<Longrightarrow> round1 x \<le> round1 y"
  unfolding round1_def using py_round_mono[of "x * 10" "y * 10"] by (simp add: divide_right_mono)

lemma round1_of_int [simp]: "round1 (of_int k) = of_int k"
proof -
  have "of_int k * (10::real) = of_int (k * 10)" by simp
  then have "py_round (of_int k * 10) = k * 10" using py_round_of_int by metis
  then show ?thesis unfolding round1_def by simp
qed

lemma length_x_range [simp]: "length (x_range n) = n"
  unfolding x_range_def by simp

lemma round1_numeral [simp]: "round1 (numeral k) = numeral k"
  using round1_of_int[of "numeral k"] by simp



lemma denominator_nonneg: "0 \<le> denominator y"
  unfolding denominator_def Let_def by (auto intro!: sum_list_nonneg)


lemma length_lin [simp]: "length (lin a b n) = n"
  unfolding lin_def by simp

lemma sum_list_lin: "sum_list (lin a b n) = real n * a + b * sum_list (x_range n)"
  unfolding lin_def x_range_def by (induction n) (auto simp: field_simps)

lemma np_mean_lin: "0 < n \<Longrightarrow> np_mean (lin a b n) = a + b * np_mean (x_range n)"
  unfolding np_mean_def by (simp add: sum_list_lin field_simps)

lemma numerator_lin: "numerator (lin a b n) = b * denominator (lin a b n)"
proof (cases "n = 0")
  case True
  then show ?thesis unfolding numerator_def denominator_def Let_def lin_def x_range_def by simp
next
  case False
  then have n: "0 < n" by simp
  let ?xm = "np_mean (x_range n)"
  have "numerator (lin a b n) =
          sum_list (map (\<lambda>i. (real i - ?xm) * ((a + b * real i) - (a + b * ?xm))) [0..<n])"
    unfolding numerator_def Let_def
    by (simp add: np_mean_lin[OF n]) (simp add: lin_def x_range_def map2_map_map)
  also have "\<dots> = sum_list (map (\<lambda>i. b * (real i - ?xm)\<^sup>2) [0..<n])"
    by (rule arg_cong[where f = sum_list], rule map_cong) (auto simp: power2_eq_square algebra_simps)
  also have "\<dots> = b * sum_list (map (\<lambda>i. (real i - ?xm)\<^sup>2) [0..<n])"
    by (simp add: sum_list_const_mult)
  also have "sum_list (map (\<lambda>i. (real i - ?xm)\<^sup>2) [0..<n]) = denominator (lin a b n)"
    unfolding denominator_def Let_def by (simp add: x_range_def o_def)
  finally show ?thesis .
qed


lemma slope_lin0: "slope (lin a 0 n) = 0"
  unfolding slope_def by (simp add: numerator_lin)





lemma replicate_lin: "replicate n c = lin c 0 n"
  unfolding lin_def by (simp add: map_replicate_const)

section \<open>Properties of the forecast\<close>

lemma band_ordered:
  fixes p0 m :: real
  assumes "0 \<le> m" "lo' \<le> lo" "hi \<le> hi'" "lo \<le> hi"
  shows "round1 (max lo' (max lo (min hi p0) - m)) \<le> round1 (max lo (min hi p0))
       \<and> round1 (max lo (min hi p0)) \<le> round1 (min hi' (max lo (min hi p0) + m))"
proof -
  let ?p = "max lo (min hi p0)"
  have "lo \<le> ?p" "?p \<le> hi" using assms by auto
  then have "max lo' (?p - m) \<le> ?p" "?p \<le> min hi' (?p + m)" using assms by auto
  then show ?thesis by (auto intro: round1_mono)
qed

lemma np_std_nonneg: "0 \<le> np_std xs"
  unfolding np_std_def np_mean_def by (auto intro!: divide_nonneg_nonneg sum_list_nonneg)

lemma std_error_nonneg: "0 \<le> std_error y"
  unfolding std_error_def by (simp add: np_std_nonneg)

lemma margin_nonneg: "0 \<le> se \<Longrightarrow> 1 \<le> i \<Longrightarrow> i \<le> fd \<Longrightarrow> 0 \<le> margin se fd i"
  unfolding margin_def by (simp add: divide_nonneg_nonneg)

lemma forecast_point_ordered:
  assumes "1 \<le> i" "i \<le> fd"
  shows "lowerBound (forecast_point y ld fd metric i) \<le> predicted (forecast_point y ld fd metric i)
       \<and> predicted (forecast_point y ld fd metric i) \<le> upperBound (forecast_point y ld fd metric i)"
proof -
  have m: "0 \<le> margin (std_error y) fd i" using assms std_error_nonneg margin_nonneg by simp
  consider "metric = ''systolic''" | "metric \<noteq> ''systolic''" "metric = ''diastolic''"
    | "metric \<noteq> ''systolic''" "metric \<noteq> ''diastolic''" by blast
  then show ?thesis
  proof cases
    case 1
    then show ?thesis unfolding forecast_point_def Let_def
      using band_ordered[OF m, of 70 80 200 220] by simp
  next
    case 2
    then show ?thesis unfolding forecast_point_def Let_def
      using band_ordered[OF m, of 40 50 130 150] by simp
  next
    case 3
    then show ?thesis unfolding forecast_point_def Let_def
      using band_ordered[OF m, of 30 40 150 180] by simp
  qed
qed

lemma generate_forecast_points_Inr:
  "hist \<noteq> [] \<Longrightarrow>
   generate_forecast_points hist fd metric =
     Inr (map (forecast_point (map value hist) (date (last hist)) fd metric) [1..fd])"
  unfolding generate_forecast_points_def by simp



lemma length_residuals [simp]: "length (residuals y) = length y"
  unfolding residuals_def by simp





lemma value_noisy_history:
  "map value noisy_history = [152, 148, 148, 152, 152, 148, 148, 152]"
  unfolding noisy_history_def by simp

lemma slope_noisy: "slope [152, 148, 148, 152, 152, 148, 148, 152] = 0"
  by code_simp

lemma intercept_noisy: "forecast_intercept [152, 148, 148, 152, 152, 148, 148, 152] = 150"
  by code_simp

lemma residuals_noisy:
  "residuals [152, 148, 148, 152, 152, 148, 148, 152] = [2, -2, -2, 2, 2, -2, -2, 2]"
  by code_simp

lemma std_error_noisy: "std_error [152, 148, 148, 152, 152, 148, 148, 152] = 2"
  unfolding std_error_def residuals_noisy by (simp add: np_std_def np_mean_def)


lemma forecast_point_noisy_30:
  "forecast_point [152, 148, 148, 152, 152, 148, 148, 152] 7 30 ''systolic'' 30
     = \<lparr> fdate = 37, predicted = 150, upperBound = 155.9, lowerBound = 144.1 \<rparr>"
  unfolding forecast_point_def std_error_noisy slope_noisy intercept_noisy margin_def Let_def
  apply simp
  apply code_simp
  done

lemma noisy_forecast:
  "generate_forecast_points noisy_history 30 ''systolic'' =
     Inr (map (forecast_point [152, 148, 148, 152, 152, 148, 148, 152] 7 30 ''systolic'') [1..30])"
proof -
  have ne: "noisy_history \<noteq> []" unfolding noisy_history_def by simp
  have l: "date (last noisy_history) = 7" unfolding noisy_history_def by simp
  show ?thesis unfolding generate_forecast_points_Inr[OF ne] value_noisy_history l ..
qed

lemma noisy_forecast_nth:
  "k < 30 \<Longrightarrow> projr (generate_forecast_points noisy_history 30 ''systolic'') ! k =
     forecast_point [152, 148, 148, 152, 152, 148, 148, 152] 7 30 ''systolic'' (1 + int k)"
  unfolding noisy_forecast by (simp add: nth_upto)

text \<open>
  C10.  In every list of forecast points that the forecast produces, for any metric, any
  horizon and any history, each point has its lower bound at most its predicted value and
  its predicted value at most its upper bound; so has every point of a forecast result.
\<close>

theorem forecast_bounds_ordered:
  "(generate_forecast_points hist forecast_days metric = Inr pts \<longrightarrow>
      (\<forall>p \<in> set pts. lowerBound p \<le> predicted p \<and> predicted p \<le> upperBound p)) \<and>
   (generate_forecast db settings patient_id metric forecast_days history_days = Inr res \<longrightarrow>
      (\<forall>p \<in> set (ts_forecast res). lowerBound p \<le> predicted p \<and> predicted p \<le> upperBound p))"
proof -
  have a: "\<And>h fd m ps. generate_forecast_points h fd m = Inr ps \<Longrightarrow>
     \<forall>p \<in> set ps. lowerBound p \<le> predicted p \<and> predicted p \<le> upperBound p"
    unfolding generate_forecast_points_def Let_def
    by (auto split: if_splits simp: forecast_point_ordered)
  have b: "generate_forecast db settings patient_id metric forecast_days history_days = Inr res \<Longrightarrow>
      \<exists>h m. generate_forecast_points h forecast_days m = Inr (ts_forecast res)"
    unfolding generate_forecast_def Let_def
    by (auto split: option.splits if_splits sum.splits; blast)
  show ?thesis using a b by blast
qed

theorem forecast_bounds_ordered_witness:
  "generate_forecast_points noisy_history 30 ''systolic''
     = Inr (projr (generate_forecast_points noisy_history 30 ''systolic'')) \<and>
   projr (generate_forecast_points noisy_history 30 ''systolic'') ! 29
     = \<lparr> fdate = 37, predicted = 150, upperBound = 155.9, lowerBound = 144.1 \<rparr> \<and>
   lowerBound (projr (generate_forecast_points noisy_history 30 ''systolic'') ! 29)
     \<le> predicted (projr (generate_forecast_points noisy_history 30 ''systolic'') ! 29) \<and>
   predicted (projr (generate_forecast_points noisy_history 30 ''systolic'') ! 29)
     \<le> upperBound (projr (generate_forecast_points noisy_history 30 ''systolic'') ! 29)"
proof -
  let ?pts = "projr (generate_forecast_points noisy_history 30 ''systolic'')"
  have e: "generate_forecast_points noisy_history 30 ''systolic'' = Inr ?pts"
    unfolding noisy_forecast by simp
  have len: "length ?pts = 30" unfolding noisy_forecast by simp
  have v: "?pts ! 29 = \<lparr> fdate = 37, predicted = 150, upperBound = 155.9, lowerBound = 144.1 \<rparr>"
    using noisy_forecast_nth[of 29] forecast_point_noisy_30 by simp
  have m: "?pts ! 29 \<in> set ?pts" using len by simp
  from forecast_bounds_ordered[of noisy_history 30 "''systolic''" ?pts] e
  have "\<forall>p \<in> set ?pts. lowerBound p \<le> predicted p \<and> predicted p \<le> upperBound p" by blast
  with m have "lowerBound (?pts ! 29) \<le> predicted (?pts ! 29)
      \<and> predicted (?pts ! 29) \<le> upperBound (?pts ! 29)" by blast
  with e v show ?thesis by blast
qed




section \<open>Properties of the trend predictions\<close>



lemma drop_lin: "k \<le> n \<Longrightarrow> drop k (lin a b n) = lin (a + b * real k) b (n - k)"
proof -
  assume kn: "k \<le> n"
  have "[k..<n] = map (\<lambda>i. i + k) [0..<n - k]" using kn by (simp add: map_add_upt)
  then have "map (\<lambda>i. a + b * real i) [k..<n] = map (\<lambda>i. a + b * real (i + k)) [0..<n - k]"
    by (simp add: o_def)
  then show ?thesis unfolding lin_def by (simp add: drop_map algebra_simps)
qed

lemma np_mean_const: "0 < n \<Longrightarrow> np_mean (lin c 0 n) = c"
  by (simp add: np_mean_lin)


lemma prediction_intercept_const: "0 < n \<Longrightarrow> prediction_intercept (lin c 0 n) = c"
  unfolding prediction_intercept_def by (simp add: slope_lin0 np_mean_lin)

lemma r_squared_const: "r_squared (lin c 0 n) = 0"
proof (cases "n = 0")
  case True
  then show ?thesis unfolding r_squared_def Let_def lin_def by simp
next
  case False
  then have m: "np_mean (lin c 0 n) = c" by (simp add: np_mean_const)
  have "sum_list (map (\<lambda>yi. (yi - c)\<^sup>2) (lin c 0 n)) = 0"
    unfolding lin_def by (simp add: o_def)
  then show ?thesis unfolding r_squared_def Let_def m by simp
qed

lemma map_const_replicate: "\<forall>x \<in> set xs. f x = c \<Longrightarrow> map f xs = replicate (length xs) c"
  by (induction xs) auto

lemma metric_values_const:
  assumes "\<forall>r \<in> set readings. metric_of metric_key r = Some c"
  shows "metric_values readings metric_key = replicate (length readings) (Some c)"
proof -
  have "\<forall>r \<in> set (sorted_readings readings). metric_of metric_key r = Some c"
    using assms unfolding sorted_readings_def by simp
  from map_const_replicate[OF this] show ?thesis
    unfolding metric_values_def by (simp add: sorted_readings_def)
qed

lemma reasonable_spec:
  "metric_key \<in> set [''systolic'', ''diastolic'', ''pulse''] \<Longrightarrow>
   reasonable metric_key v = clamp (spec_plausible_range metric_key) v"
  unfolding reasonable_def clamp_def spec_plausible_range_def by auto

lemma round1_clamp_ints:
  fixes lo hi c :: int
  shows "round1 (max (of_int lo) (min (of_int hi) (of_int c))) = max (of_int lo) (min (of_int hi) (of_int c))"
proof -
  have "max (of_int lo) (min (of_int hi) (of_int c :: real)) = of_int (max lo (min hi c))"
    by (simp only: of_int_max of_int_min)
  then show ?thesis by (simp only: round1_of_int)
qed

lemma round1_clamp_int:
  "round1 (clamp (spec_plausible_range metric_key) (of_int c))
     = clamp (spec_plausible_range metric_key) (of_int c)"
proof -
  consider "spec_plausible_range metric_key = (of_int 80, of_int 200)"
    | "spec_plausible_range metric_key = (of_int 50, of_int 130)"
    | "spec_plausible_range metric_key = (of_int 40, of_int 150)"
    unfolding spec_plausible_range_def by (cases "metric_key = ''systolic''"; cases "metric_key = ''diastolic''"; simp)
  then show ?thesis
    by cases (simp_all only: clamp_def fst_conv snd_conv round1_clamp_ints)
qed

lemma constant_prediction:
  assumes ne: "readings \<noteq> []"
    and key: "metric_key \<in> set [''systolic'', ''diastolic'', ''pulse'']"
    and const: "\<forall>r \<in> set readings. metric_of metric_key r = Some c"
  shows "map (\<lambda>v. real_of_int (the v)) (metric_values readings metric_key)
           = lin (of_int c) 0 (length readings)"
    and "calculate_metric_prediction readings metric_key metric_name timeframe_days =
           Inr \<lparr> tp_metric = metric_name,
                 currentValue = of_int c,
                 predictedValue = clamp (spec_plausible_range metric_key) (of_int c),
                 confidence = 30,
                 timeframe = show_int timeframe_days @ '' days'',
                 trend = ''stable'' \<rparr>"
proof -
  let ?n = "length readings"
  have n: "0 < ?n" using ne by simp
  have mv: "metric_values readings metric_key = replicate ?n (Some c)"
    using const by (rule metric_values_const)
  show y: "map (\<lambda>v. real_of_int (the v)) (metric_values readings metric_key) = lin (of_int c) 0 ?n"
    unfolding mv lin_def by (simp add: map_replicate_const)
  have nn: "None \<notin> set (metric_values readings metric_key)" unfolding mv by simp
  have rv: "sum_list (recent_values (lin (of_int c) 0 ?n)) / real (length (recent_values (lin (of_int c) 0 ?n))) = of_int c"
  proof (cases "7 \<le> ?n")
    case True
    then show ?thesis unfolding recent_values_def
      using np_mean_const[of 7 "of_int c"] by (simp add: drop_lin np_mean_def)
  next
    case False
    then show ?thesis unfolding recent_values_def
      using np_mean_const[OF n, of "of_int c"] by (simp add: np_mean_def)
  qed
  have conf: "prediction_confidence (lin (of_int c) 0 ?n) = 30"
    unfolding prediction_confidence_def Let_def by (simp add: r_squared_const py_int_def)
  have tr: "trend_label metric_key 0 = ''stable''" unfolding trend_label_def by simp
  show "calculate_metric_prediction readings metric_key metric_name timeframe_days =
           Inr \<lparr> tp_metric = metric_name,
                 currentValue = of_int c,
                 predictedValue = clamp (spec_plausible_range metric_key) (of_int c),
                 confidence = 30,
                 timeframe = show_int timeframe_days @ '' days'',
                 trend = ''stable'' \<rparr>"
    unfolding calculate_metric_prediction_def Let_def y
    using ne key nn
    by (simp add: rv conf tr slope_lin0 prediction_intercept_const[OF n] reasonable_spec[OF key]
        round1_clamp_int)
qed







lemma constant_readings_values:
  "\<forall>r \<in> set (constant_readings n s d). metric_of ''systolic'' r = Some s"
  "\<forall>r \<in> set (constant_readings n s d). metric_of ''diastolic'' r = Some d"
  unfolding constant_readings_def by (auto simp: metric_of_def bp_reading_def)




text \<open>
  C7, as the specification states it: with constant values the predicted value would be that
  constant.  Seven daily readings with a systolic value of 210 give a predicted value of 200,
  the upper end of the range to which the prediction is clamped.
\<close>

theorem constant_prediction_clamped:
  "map systolic (constant_readings 7 210 80) = [210, 210, 210, 210, 210, 210, 210] \<and>
   calculate_metric_prediction (constant_readings 7 210 80) ''systolic'' ''Systolic BP'' 30
     = Inr (projr (calculate_metric_prediction (constant_readings 7 210 80)
                     ''systolic'' ''Systolic BP'' 30)) \<and>
   predictedValue (projr (calculate_metric_prediction (constant_readings 7 210 80)
                     ''systolic'' ''Systolic BP'' 30)) = 200 \<and>
   predictedValue (projr (calculate_metric_prediction (constant_readings 7 210 80)
                     ''systolic'' ''Systolic BP'' 30)) \<noteq> 210"
proof -
  have ne: "constant_readings 7 210 80 \<noteq> []"
    unfolding constant_readings_def by (simp add: upt_conv_Cons)
  have v: "map systolic (constant_readings 7 210 80) = [210, 210, 210, 210, 210, 210, 210]"
    unfolding constant_readings_def bp_reading_def by (simp add: upt_conv_Cons)
  have c: "clamp (spec_plausible_range ''systolic'') 210 = 200"
    unfolding clamp_def spec_plausible_range_def by simp
  show ?thesis
    using v constant_prediction(2)[OF ne _ constant_readings_values(1), of "''Systolic BP''" 30]
    by (simp add: c)
qed

text \<open>
  C7, amended.  For readings (at least one) whose values of the metric are all one constant,
  the fitted slope is 0, the coefficient of determination is 0, and the routine returns a
  prediction whose predicted value is the constant clamped to the plausible range of the
  metric (systolic 80 to 200, diastolic 50 to 130, pulse 40 to 150): the constant itself when
  it lies in that range.
\<close>

theorem constant_regression:
  assumes "readings \<noteq> []"
      and "metric_key \<in> set [''systolic'', ''diastolic'', ''pulse'']"
      and "\<forall>r \<in> set readings. metric_of metric_key r = Some c"
  shows "slope (map (\<lambda>v. real_of_int (the v)) (metric_values readings metric_key)) = 0 \<and>
         r_squared (map (\<lambda>v. real_of_int (the v)) (metric_values readings metric_key)) = 0 \<and>
         calculate_metric_prediction readings metric_key metric_name timeframe_days
           = Inr (projr (calculate_metric_prediction readings metric_key metric_name timeframe_days)) \<and>
         predictedValue (projr (calculate_metric_prediction readings metric_key metric_name timeframe_days))
           = clamp (spec_plausible_range metric_key) (of_int c) \<and>
         (fst (spec_plausible_range metric_key) \<le> of_int c \<and>
          of_int c \<le> snd (spec_plausible_range metric_key) \<longrightarrow>
            predictedValue (projr (calculate_metric_prediction readings metric_key metric_name timeframe_days))
              = of_int c)"
proof -
  note y = constant_prediction(1)[OF assms]
  note r = constant_prediction(2)[OF assms, of metric_name timeframe_days]
  have "fst (spec_plausible_range metric_key) \<le> of_int c \<and>
        of_int c \<le> snd (spec_plausible_range metric_key) \<longrightarrow>
          clamp (spec_plausible_range metric_key) (of_int c) = of_int c"
    unfolding clamp_def by auto
  then show ?thesis unfolding y r by (simp add: slope_lin0 r_squared_const)
qed

theorem constant_regression_witness:
  "constant_readings 7 150 80 \<noteq> [] \<and>
   ''systolic'' \<in> set [''systolic'', ''diastolic'', ''pulse''] \<and>
   map (metric_of ''systolic'') (constant_readings 7 150 80)
     = [Some 150, Some 150, Some 150, Some 150, Some 150, Some 150, Some 150] \<and>
   slope (map (\<lambda>v. real_of_int (the v)) (metric_values (constant_readings 7 150 80) ''systolic'')) = 0 \<and>
   r_squared (map (\<lambda>v. real_of_int (the v)) (metric_values (constant_readings 7 150 80) ''systolic'')) = 0 \<and>
   predictedValue (projr (calculate_metric_prediction (constant_readings 7 150 80)
                     ''systolic'' ''Systolic BP'' 30)) = 150"
proof -
  have ne: "constant_readings 7 150 80 \<noteq> []"
    unfolding constant_readings_def by (simp add: upt_conv_Cons)
  have k: "''systolic'' \<in> set [''systolic'', ''diastolic'', ''pulse'']" by simp
  have v: "map (metric_of ''systolic'') (constant_readings 7 150 80)
     = [Some 150, Some 150, Some 150, Some 150, Some 150, Some 150, Some 150]"
    unfolding constant_readings_def bp_reading_def metric_of_def by (simp add: upt_conv_Cons)
  then have a: "\<forall>r \<in> set (constant_readings 7 150 80). metric_of ''systolic'' r = Some 150"
    using constant_readings_values(1) by blast
  have s: "spec_plausible_range ''systolic'' = (80, 200)"
    unfolding spec_plausible_range_def by simp
  from constant_regression[OF ne k a, of "''Systolic BP''" 30] ne k v
  show ?thesis by (simp add: s)
qed




section \<open>Properties of the correlation analysis\<close>












end
